theory Spec2Isabelle
  imports Complex_Main "HOL-Library.Log_Nat"
begin

section \<open>The tool-cabinet server: inventory handlers of \<open>app/websocket_server.py\<close>\<close>

text \<open>
  The development embeds the message handlers of \<open>app/websocket_server.py\<close>
  (\<open>borrow_tool\<close>, \<open>return_tool\<close>, \<open>sensor_update\<close>, \<open>get_tool_status\<close>,
  \<open>process_websocket_message\<close>), the connection manager they send through, and the two
  history functions of \<open>app/record_handler.py\<close> they call. One handler invocation is a
  function from the state before it to the state after it and the list of effects it performed,
  in program order.
\<close>

subsection \<open>Python floats\<close>

text \<open>
  \<open>Tool.unit_weight\<close> is a \<open>Float\<close> column and \<open>current_weight\<close> is a JSON number, so
  the sensor handler computes with IEEE binary64 values. A finite float is kept as the rational
  it denotes (the two zeros are identified); the infinities and NaN are separate values.
  \<open>round_double\<close> rounds a rational to the nearest binary64 value, ties to even, and
  overflows to an infinity.
\<close>

datatype pyfloat = Fin rat | PInf | NInf | NaN

datatype py_error =
    OverflowError | ValueError | ZeroDivisionError | DatabaseError | PendingRollbackError

definition pow2 :: "int \<Rightarrow> rat" where
  "pow2 e = (if 0 \<le> e then 2 ^ nat e else 1 / 2 ^ nat (- e))"

definition ilog2 :: "rat \<Rightarrow> int" where
  \<comment> \<open>for \<open>a > 0\<close>, the exponent \<open>e\<close> with \<open>2 ^ e \<le> a < 2 ^ (e + 1)\<close>\<close>
  "ilog2 a =
     (let p = fst (quotient_of a); q = snd (quotient_of a);
          e0 = bitlen p - bitlen q
      in if pow2 e0 \<le> a then e0 else e0 - 1)"

definition round_half_even :: "rat \<Rightarrow> int" where
  "round_half_even x =
     (let f = \<lfloor>x\<rfloor>; d = x - of_int f
      in if d < 1 / 2 then f else if 1 / 2 < d then f + 1
         else if even f then f else f + 1)"

definition round_double :: "rat \<Rightarrow> pyfloat" where
  "round_double r =
     (if r = 0 then Fin 0
      else let a = \<bar>r\<bar>;
               e = max (ilog2 a) (- 1022);
               ulp = pow2 (e - 52);
               v = of_int (round_half_even (a / ulp)) * ulp
           in if pow2 1024 \<le> v then (if 0 < r then PInf else NInf)
              else Fin (if 0 < r then v else - v))"

text \<open>A JSON number arrives as a Python \<open>int\<close> or a Python \<open>float\<close>.\<close>

datatype number = NInt int | NFloat pyfloat

definition to_float :: "number \<Rightarrow> py_error + pyfloat" where
  \<comment> \<open>the conversion \<open>int / float\<close> applies to its left operand; a float is left as it is\<close>
  "to_float n =
     (case n of
        NFloat x \<Rightarrow> Inr x
      | NInt i \<Rightarrow>
          (case round_double (of_int i) of
             Fin r \<Rightarrow> Inr (Fin r)
           | _ \<Rightarrow> Inl OverflowError))"

fun float_truediv :: "pyfloat \<Rightarrow> pyfloat \<Rightarrow> py_error + pyfloat" where
  "float_truediv x (Fin b) =
     (if b = 0 then Inl ZeroDivisionError
      else case x of
             Fin a \<Rightarrow> Inr (round_double (a / b))
           | PInf \<Rightarrow> Inr (if 0 < b then PInf else NInf)
           | NInf \<Rightarrow> Inr (if 0 < b then NInf else PInf)
           | NaN \<Rightarrow> Inr NaN)"
| "float_truediv (Fin a) PInf = Inr (Fin 0)"
| "float_truediv (Fin a) NInf = Inr (Fin 0)"
| "float_truediv x y = Inr NaN"

definition truediv :: "number \<Rightarrow> pyfloat \<Rightarrow> py_error + pyfloat" where
  \<comment> \<open>\<open>current_weight / tool.unit_weight\<close>\<close>
  "truediv n y = (case to_float n of Inl e \<Rightarrow> Inl e | Inr x \<Rightarrow> float_truediv x y)"

definition trunc :: "rat \<Rightarrow> int" where
  \<comment> \<open>rounding toward zero\<close>
  "trunc r = (if 0 \<le> r then \<lfloor>r\<rfloor> else \<lceil>r\<rceil>)"

fun py_int :: "pyfloat \<Rightarrow> py_error + int" where
  \<comment> \<open>\<open>int(x)\<close> of a float\<close>
  "py_int (Fin r) = Inr (trunc r)"
| "py_int PInf = Inl OverflowError"
| "py_int NInf = Inl OverflowError"
| "py_int NaN = Inl ValueError"

fun le_zero :: "pyfloat \<Rightarrow> bool" where
  \<comment> \<open>\<open>x <= 0\<close> of a float: every comparison with NaN is false\<close>
  "le_zero (Fin r) = (r \<le> 0)"
| "le_zero NInf = True"
| "le_zero PInf = False"
| "le_zero NaN = False"

subsection \<open>Data model\<close>

text \<open>
  The \<open>status\<close> column holds one of three strings, written here by their meaning:
  \<open>Normal\<close> is the string for "normal", \<open>Low\<close> the one for "low stock", \<open>Empty\<close> the
  one for "no stock". A timestamp is a value returned by \<open>datetime.now()\<close>.
\<close>

datatype status = Normal | Low | Empty

type_synonym timestamp = nat

record tool =
  tool_id :: int
  name :: string
  total_quantity :: int
  current_quantity :: int
  threshold :: int
  unit_weight :: pyfloat
  status :: status
  last_updated :: "timestamp option"

datatype record_action = Borrowed | Returned

record borrow_record =
  employee_id :: int
  record_tool_id :: int
  record_action :: record_action
  record_quantity :: int
  borrow_time :: timestamp
  return_time :: "timestamp option"

text \<open>
  An inbound message is the dictionary decoded from JSON, with the fields of the inbound
  message shape: an absent key is \<open>None\<close>.
\<close>

record message =
  action :: "string option"
  quantity :: "int option"
  current_weight :: "number option"

type_synonym conn = nat

text \<open>
  The human-readable \<open>message\<close> field of a reply. Each constructor stands for one string of
  the source and carries the values the source formats into it.
\<close>

datatype reply_text =
    InvalidBorrowQuantity
  | InvalidReturnQuantity
  | ToolNotFound
  | InsufficientStock int
  | WouldExceedCapacity int int
  | BorrowOk
  | ReturnOk
  | MissingCurrentWeight
  | SensorOk
  | SensorFailed py_error
  | BorrowFailed py_error
  | ReturnFailed py_error
  | UnknownAction string

datatype payload =
    StatusData int string int int int status "timestamp option"
  | BorrowData int int status timestamp
  | ReturnData int int status timestamp
  | SensorData number int int status
  | ChangeData int int status timestamp

record envelope =
  e_type :: string
  e_action :: "string option"
  e_success :: "bool option"
  e_data :: "payload option"
  e_message :: "reply_text option"
  e_timestamp :: "timestamp option"

datatype log_level = Info | Warning | Error

datatype log_text =
    ToolBorrowed int int int
  | ToolReturned int int int
  | SensorUpdated number int int int
  | BorrowRecorded int timestamp
  | ReturnRecorded int timestamp
  | NewReturnRecord int
  | CreateBorrowRecordFailed py_error
  | CreateReturnRecordFailed py_error
  | BorrowTimeNotRecorded py_error
  | ReturnTimeNotRecorded py_error
  | SensorUpdateError py_error
  | BorrowError py_error
  | ReturnError py_error

datatype collaborator = Create_borrow_record | Create_return_record

text \<open>
  The effects of a handler, in program order: a call of
  \<open>manager.send_personal_message\<close>, a call of \<open>manager.broadcast\<close> with the connections
  it iterates over, a call of a history function, a log line. Both manager methods catch and
  log the failure of a send, so a failed send changes neither the state nor what follows.
\<close>

datatype event =
    Unicast conn envelope
  | Broadcast "conn list" envelope
  | Invoke collaborator int
  | Log log_level log_text

text \<open>
  The state the handlers share: row 1 of table \<open>tools\<close> (absent until it is created), table
  \<open>borrow_records\<close> in insertion order, and \<open>manager.active_connections\<close>.
\<close>

record world =
  db_tool :: "tool option"
  borrow_records :: "borrow_record list"
  active_connections :: "conn list"

text \<open>
  What one handler invocation takes from outside: the value of each \<open>datetime.now()\<close> it
  evaluates, named by the file and line of the call (no call is evaluated twice in one
  invocation), and what happens to the \<open>db.commit()\<close> of the history function. That call
  first flushes the pending row and then commits the transaction, and either step can raise.
  The history functions work on the handler's own session. An exception of the flush leaves the
  session unusable until it is rolled back, so that the handler's next read of the tool row
  raises in turn; an exception of the commit step leaves the session usable.
\<close>

datatype site = WS nat | RH nat

datatype db_fault = NoFault | FlushFault | CommitFault

datatype session = Usable | Invalidated

record env =
  now :: "site \<Rightarrow> timestamp"
  history_fault :: db_fault

definition history_commit :: "env \<Rightarrow> (py_error \<times> session) option" where
  \<comment> \<open>the exception of the history function's \<open>db.commit()\<close>, if any, and the session it leaves\<close>
  "history_commit env =
     (case history_fault env of
        NoFault \<Rightarrow> None
      | FlushFault \<Rightarrow> Some (DatabaseError, Invalidated)
      | CommitFault \<Rightarrow> Some (DatabaseError, Usable))"

subsection \<open>Connection manager\<close>

definition send_personal_message :: "envelope \<Rightarrow> conn \<Rightarrow> event list" where
  "send_personal_message m ws = [Unicast ws m]"

definition broadcast :: "world \<Rightarrow> envelope \<Rightarrow> event list" where
  "broadcast w m = [Broadcast (active_connections w) m]"

subsection \<open>History functions (\<open>app/record_handler.py\<close>)\<close>

definition create_borrow_record ::
  "env \<Rightarrow> world \<Rightarrow> int \<Rightarrow> (py_error \<times> session + unit) \<times> world \<times> event list" where
  "create_borrow_record env w q =
     (let record = \<lparr>employee_id = 1, record_tool_id = 1, record_action = Borrowed,
                     record_quantity = q, borrow_time = now env (RH 62), return_time = None\<rparr>
      in case history_commit env of
           Some (e, s) \<Rightarrow> (Inl (e, s), w, [Log Error (CreateBorrowRecordFailed e)])
         | None \<Rightarrow> (Inr (), w\<lparr>borrow_records := borrow_records w @ [record]\<rparr>,
                    [Log Info (BorrowRecorded q (borrow_time record))]))"

definition open_borrows :: "borrow_record list \<Rightarrow> nat list" where
  \<comment> \<open>the rows with action "borrowed" and no return time\<close>
  "open_borrows rs =
     filter (\<lambda>i. record_action (rs ! i) = Borrowed \<and> return_time (rs ! i) = None) [0..<length rs]"

definition latest_borrow :: "borrow_record list \<Rightarrow> nat option" where
  \<comment> \<open>\<open>order_by(borrow_time.desc()).first()\<close>; among equal times the earliest row\<close>
  "latest_borrow rs =
     (case open_borrows rs of
        [] \<Rightarrow> None
      | i # js \<Rightarrow> Some (fold (\<lambda>j b. if borrow_time (rs ! b) < borrow_time (rs ! j) then j else b) js i))"

definition create_return_record ::
  "env \<Rightarrow> world \<Rightarrow> int \<Rightarrow> (py_error \<times> session + unit) \<times> world \<times> event list" where
  "create_return_record env w q =
     (case latest_borrow (borrow_records w) of
        Some i \<Rightarrow>
          (let t = now env (RH 99);
               r = (borrow_records w ! i)\<lparr>return_time := Some t, record_action := Returned\<rparr>
           in case history_commit env of
                Some (e, s) \<Rightarrow> (Inl (e, s), w, [Log Error (CreateReturnRecordFailed e)])
              | None \<Rightarrow> (Inr (), w\<lparr>borrow_records := (borrow_records w)[i := r]\<rparr>,
                         [Log Info (ReturnRecorded q t)]))
      | None \<Rightarrow>
          (let record = \<lparr>employee_id = 1, record_tool_id = 1, record_action = Returned,
                          record_quantity = q, borrow_time = now env (RH 116),
                          return_time = Some (now env (RH 117))\<rparr>
           in case history_commit env of
                Some (e, s) \<Rightarrow> (Inl (e, s), w, [Log Error (CreateReturnRecordFailed e)])
              | None \<Rightarrow> (Inr (), w\<lparr>borrow_records := borrow_records w @ [record]\<rparr>,
                         [Log Warning (NewReturnRecord q)])))"

subsection \<open>Handlers (\<open>app/websocket_server.py\<close>)\<close>

definition update_status :: "tool \<Rightarrow> tool" where
  \<comment> \<open>the status block of lines 275-280, repeated at 392-397 and 511-516\<close>
  "update_status t =
     (if current_quantity t \<le> 0 then t\<lparr>status := Empty\<rparr>
      else if current_quantity t \<le> threshold t then t\<lparr>status := Low\<rparr>
      else t\<lparr>status := Normal\<rparr>)"

definition get_quantity :: "message \<Rightarrow> int" where
  \<comment> \<open>\<open>message.get("quantity", 1)\<close>\<close>
  "get_quantity msg = (case quantity msg of None \<Rightarrow> 1 | Some n \<Rightarrow> n)"

definition failure :: "string \<Rightarrow> reply_text \<Rightarrow> timestamp \<Rightarrow> envelope" where
  "failure act txt ts =
     \<lparr>e_type = ''tool'', e_action = Some act, e_success = Some False, e_data = None,
      e_message = Some txt, e_timestamp = Some ts\<rparr>"

definition success :: "string \<Rightarrow> payload \<Rightarrow> reply_text \<Rightarrow> timestamp \<Rightarrow> envelope" where
  "success act d txt ts =
     \<lparr>e_type = ''tool'', e_action = Some act, e_success = Some True, e_data = Some d,
      e_message = Some txt, e_timestamp = Some ts\<rparr>"

definition error_reply :: "string \<Rightarrow> reply_text \<Rightarrow> timestamp \<Rightarrow> envelope" where
  \<comment> \<open>the reply of a handler's outer \<open>except\<close>\<close>
  "error_reply act txt ts =
     \<lparr>e_type = ''error'', e_action = Some act, e_success = None, e_data = None,
      e_message = Some txt, e_timestamp = Some ts\<rparr>"

definition inventory_changed :: "int \<Rightarrow> tool \<Rightarrow> timestamp \<Rightarrow> envelope" where
  "inventory_changed old_quantity t ts =
     \<lparr>e_type = ''notification'', e_action = Some ''inventory_changed'', e_success = None,
      e_data = Some (ChangeData old_quantity (current_quantity t) (status t) ts),
      e_message = None, e_timestamp = None\<rparr>"

definition get_tool_status :: "env \<Rightarrow> world \<Rightarrow> conn \<Rightarrow> world \<times> event list" where
  "get_tool_status env w ws =
     (case db_tool w of
        None \<Rightarrow> (w, send_personal_message (failure ''get_status'' ToolNotFound (now env (WS 187))) ws)
      | Some t \<Rightarrow>
          (w, send_personal_message
                \<lparr>e_type = ''tool'', e_action = Some ''get_status'', e_success = Some True,
                 e_data = Some (StatusData (tool_id t) (name t) (total_quantity t)
                                  (current_quantity t) (threshold t) (status t) (last_updated t)),
                 e_message = None, e_timestamp = Some (now env (WS 203))\<rparr> ws))"

definition borrow_tool :: "env \<Rightarrow> world \<Rightarrow> conn \<Rightarrow> message \<Rightarrow> world \<times> event list" where
  "borrow_tool env w ws msg =
     (let q = get_quantity msg
      in if q \<le> 0
         then (w, send_personal_message (failure ''borrow_tool'' InvalidBorrowQuantity (now env (WS 239))) ws)
         else case db_tool w of
           None \<Rightarrow> (w, send_personal_message (failure ''borrow_tool'' ToolNotFound (now env (WS 252))) ws)
         | Some t \<Rightarrow>
             if current_quantity t < q
             then (w, send_personal_message
                        (failure ''borrow_tool'' (InsufficientStock (current_quantity t)) (now env (WS 263))) ws)
             else
               let old_quantity = current_quantity t;
                   t1 = update_status (t\<lparr>current_quantity := current_quantity t - q\<rparr>);
                   t2 = t1\<lparr>last_updated := Some (now env (WS 283))\<rparr>;
                   w1 = w\<lparr>db_tool := Some t2\<rparr>;
                   rec = create_borrow_record env w1 q;
                   w2 = fst (snd rec);
                   rec_events = Invoke Create_borrow_record q # snd (snd rec) @
                     (case fst rec of Inl (e, s) \<Rightarrow> [Log Error (BorrowTimeNotRecorded e)] | Inr _ \<Rightarrow> []);
                   response = success ''borrow_tool''
                     (BorrowData q (current_quantity t2) (status t2) (now env (WS 304)))
                     BorrowOk (now env (WS 307))
               in (w2, Log Info (ToolBorrowed q old_quantity (current_quantity t2)) # rec_events @
                       (case fst rec of
                          Inl (e, Invalidated) \<Rightarrow>
                            Log Error (BorrowError PendingRollbackError) #
                            send_personal_message
                              (error_reply ''borrow_tool'' (BorrowFailed PendingRollbackError)
                                 (now env (WS 331))) ws
                        | _ \<Rightarrow>
                            send_personal_message response ws @
                            broadcast w2 (inventory_changed old_quantity t2 (now env (WS 320))))))"

definition return_tool :: "env \<Rightarrow> world \<Rightarrow> conn \<Rightarrow> message \<Rightarrow> world \<times> event list" where
  "return_tool env w ws msg =
     (let q = get_quantity msg
      in if q \<le> 0
         then (w, send_personal_message (failure ''return_tool'' InvalidReturnQuantity (now env (WS 356))) ws)
         else case db_tool w of
           None \<Rightarrow> (w, send_personal_message (failure ''return_tool'' ToolNotFound (now env (WS 369))) ws)
         | Some t \<Rightarrow>
             if current_quantity t + q > total_quantity t
             then (w, send_personal_message
                        (failure ''return_tool''
                           (WouldExceedCapacity (current_quantity t) (total_quantity t)) (now env (WS 380))) ws)
             else
               let old_quantity = current_quantity t;
                   t1 = update_status (t\<lparr>current_quantity := current_quantity t + q\<rparr>);
                   t2 = t1\<lparr>last_updated := Some (now env (WS 400))\<rparr>;
                   w1 = w\<lparr>db_tool := Some t2\<rparr>;
                   rec = create_return_record env w1 q;
                   w2 = fst (snd rec);
                   rec_events = Invoke Create_return_record q # snd (snd rec) @
                     (case fst rec of Inl (e, s) \<Rightarrow> [Log Error (ReturnTimeNotRecorded e)] | Inr _ \<Rightarrow> []);
                   response = success ''return_tool''
                     (ReturnData q (current_quantity t2) (status t2) (now env (WS 421)))
                     ReturnOk (now env (WS 424))
               in (w2, Log Info (ToolReturned q old_quantity (current_quantity t2)) # rec_events @
                       (case fst rec of
                          Inl (e, Invalidated) \<Rightarrow>
                            Log Error (ReturnError PendingRollbackError) #
                            send_personal_message
                              (error_reply ''return_tool'' (ReturnFailed PendingRollbackError)
                                 (now env (WS 448))) ws
                        | _ \<Rightarrow>
                            send_personal_message response ws @
                            broadcast w2 (inventory_changed old_quantity t2 (now env (WS 437))))))"

definition heal :: "tool \<Rightarrow> tool" where
  \<comment> \<open>lines 492-493\<close>
  "heal t = (if le_zero (unit_weight t) then t\<lparr>unit_weight := Fin 100\<rparr> else t)"

definition clamp_quantity :: "tool \<Rightarrow> tool" where
  \<comment> \<open>lines 505-508\<close>
  "clamp_quantity t =
     (if current_quantity t < 0 then t\<lparr>current_quantity := 0\<rparr>
      else if current_quantity t > total_quantity t then t\<lparr>current_quantity := total_quantity t\<rparr>
      else t)"

definition sensor_update :: "env \<Rightarrow> world \<Rightarrow> conn \<Rightarrow> message \<Rightarrow> world \<times> event list" where
  "sensor_update env w ws msg =
     (case current_weight msg of
        None \<Rightarrow> (w, send_personal_message (failure ''sensor_update'' MissingCurrentWeight (now env (WS 473))) ws)
      | Some cw \<Rightarrow>
          (case db_tool w of
             None \<Rightarrow> (w, send_personal_message (failure ''sensor_update'' ToolNotFound (now env (WS 486))) ws)
           | Some t \<Rightarrow>
               let t0 = heal t
               in case (case truediv cw (unit_weight t0) of Inl e \<Rightarrow> Inl e | Inr x \<Rightarrow> py_int x) of
                    Inl e \<Rightarrow>
                      (w, [Log Error (SensorUpdateError e)] @
                          send_personal_message (error_reply ''sensor_update'' (SensorFailed e) (now env (WS 562))) ws)
                  | Inr estimated_quantity \<Rightarrow>
                      let old_quantity = current_quantity t0;
                          t1 = clamp_quantity (t0\<lparr>current_quantity := estimated_quantity\<rparr>);
                          t2 = update_status t1;
                          t3 = t2\<lparr>last_updated := Some (now env (WS 519))\<rparr>;
                          w1 = w\<lparr>db_tool := Some t3\<rparr>;
                          response = success ''sensor_update''
                            (SensorData cw estimated_quantity (current_quantity t3) (status t3))
                            SensorOk (now env (WS 537))
                      in (w1, Log Info (SensorUpdated cw estimated_quantity old_quantity (current_quantity t3)) #
                              send_personal_message response ws @
                              (if old_quantity \<noteq> current_quantity t3
                               then broadcast w1 (inventory_changed old_quantity t3 (now env (WS 551)))
                               else []))))"

definition process_websocket_message :: "env \<Rightarrow> world \<Rightarrow> conn \<Rightarrow> message \<Rightarrow> world \<times> event list" where
  "process_websocket_message env w ws msg =
     (let act = (case action msg of None \<Rightarrow> ''unknown'' | Some a \<Rightarrow> a)
      in if act = ''get_tool_status'' then get_tool_status env w ws
         else if act = ''borrow_tool'' then borrow_tool env w ws msg
         else if act = ''return_tool'' then return_tool env w ws msg
         else if act = ''sensor_update'' then sensor_update env w ws msg
         else if act = ''ping''
         then (w, send_personal_message
                    \<lparr>e_type = ''system'', e_action = Some ''pong'', e_success = None, e_data = None,
                     e_message = None, e_timestamp = Some (now env (WS 155))\<rparr> ws)
         else (w, send_personal_message
                    \<lparr>e_type = ''error'', e_action = Some act, e_success = None, e_data = None,
                     e_message = Some (UnknownAction act), e_timestamp = Some (now env (WS 165))\<rparr> ws))"

subsection \<open>Runs and observations\<close>

text \<open>
  A run handles the requests of a list one after the other: each is a message, the connection
  it came from and what that invocation takes from outside. \<open>states\<close> lists the state
  after each request.
\<close>

fun states :: "world \<Rightarrow> (env \<times> conn \<times> message) list \<Rightarrow> world list" where
  "states w [] = []"
| "states w ((env, ws, msg) # reqs) =
     (let w' = fst (process_websocket_message env w ws msg) in w' # states w' reqs)"

definition quantity_in_range :: "world \<Rightarrow> bool" where
  \<comment> \<open>the tool row exists and \<open>0 \<le> current_quantity \<le> total_quantity\<close>\<close>
  "quantity_in_range w =
     (case db_tool w of
        None \<Rightarrow> False
      | Some t \<Rightarrow> 0 \<le> current_quantity t \<and> current_quantity t \<le> total_quantity t)"

definition borrow_or_return :: "env \<times> conn \<times> message \<Rightarrow> bool" where
  \<comment> \<open>a borrow or return request with a positive quantity\<close>
  "borrow_or_return req =
     (let msg = snd (snd req)
      in (action msg = Some ''borrow_tool'' \<or> action msg = Some ''return_tool'') \<and>
         0 < get_quantity msg)"

definition spec_status :: "int \<Rightarrow> int \<Rightarrow> status" where
  \<comment> \<open>the status as the specification words it: Empty if the quantity is 0, Low if
      \<open>0 < quantity \<le> threshold\<close>, Normal otherwise\<close>
  "spec_status q thr = (if q = 0 then Empty else if 0 < q \<and> q \<le> thr then Low else Normal)"

definition status_consistent :: "world \<Rightarrow> bool" where
  "status_consistent w =
     (case db_tool w of
        None \<Rightarrow> False
      | Some t \<Rightarrow> 0 \<le> current_quantity t \<and> current_quantity t \<le> total_quantity t \<and>
                  status t = spec_status (current_quantity t) (threshold t))"

fun notified :: "event list \<Rightarrow> conn list list" where
  \<comment> \<open>the recipient lists of the \<open>inventory_changed\<close> broadcasts, in order\<close>
  "notified [] = []"
| "notified (Broadcast cs m # evs) =
     (if e_action m = Some ''inventory_changed'' then cs # notified evs else notified evs)"
| "notified (_ # evs) = notified evs"

fun replies :: "event list \<Rightarrow> (conn \<times> envelope) list" where
  \<comment> \<open>the unicast replies, in order\<close>
  "replies [] = []"
| "replies (Unicast c m # evs) = (c, m) # replies evs"
| "replies (_ # evs) = replies evs"

definition succeeded :: "event list \<Rightarrow> bool" where
  \<comment> \<open>some reply carries \<open>success: true\<close>\<close>
  "succeeded evs = list_ex (\<lambda>r. e_success (snd r) = Some True) (replies evs)"

definition stock :: "world \<Rightarrow> int option" where
  "stock w = map_option current_quantity (db_tool w)"







definition clamp :: "int \<Rightarrow> int \<Rightarrow> int" where
  \<comment> \<open>a quantity clamped into \<open>[0, cap]\<close>, as the specification words it\<close>
  "clamp cap q = max 0 (min cap q)"

definition estimate :: "number \<Rightarrow> tool \<Rightarrow> py_error + int" where
  \<comment> \<open>line 496 on the row as read: \<open>int(current_weight / tool.unit_weight)\<close> after lines 492-493\<close>
  "estimate cw t = (case truediv cw (unit_weight (heal t)) of Inl e \<Rightarrow> Inl e | Inr x \<Rightarrow> py_int x)"

text \<open>
  Names for what the accepting branches build: the row a borrow, a return and a sensor update
  commit (lines 272-283, 389-400 and 502-519), and the success replies of borrow and return
  (lines 296-308 and 413-425).
\<close>

definition borrowed :: "tool \<Rightarrow> int \<Rightarrow> timestamp \<Rightarrow> tool" where
  "borrowed t q ts =
     (update_status (t\<lparr>current_quantity := current_quantity t - q\<rparr>))\<lparr>last_updated := Some ts\<rparr>"

definition returned :: "tool \<Rightarrow> int \<Rightarrow> timestamp \<Rightarrow> tool" where
  "returned t q ts =
     (update_status (t\<lparr>current_quantity := current_quantity t + q\<rparr>))\<lparr>last_updated := Some ts\<rparr>"

definition sensed :: "tool \<Rightarrow> int \<Rightarrow> timestamp \<Rightarrow> tool" where
  "sensed t n ts =
     (update_status (clamp_quantity (heal t\<lparr>current_quantity := n\<rparr>)))\<lparr>last_updated := Some ts\<rparr>"

definition borrow_response :: "int \<Rightarrow> tool \<Rightarrow> timestamp \<Rightarrow> timestamp \<Rightarrow> envelope" where
  "borrow_response q t' ts1 ts2 =
     success ''borrow_tool'' (BorrowData q (current_quantity t') (status t') ts1) BorrowOk ts2"

definition return_response :: "int \<Rightarrow> tool \<Rightarrow> timestamp \<Rightarrow> timestamp \<Rightarrow> envelope" where
  "return_response q t' ts1 ts2 =
     success ''return_tool'' (ReturnData q (current_quantity t') (status t') ts1) ReturnOk ts2"

definition tool_status :: "world \<Rightarrow> status option" where
  "tool_status w = map_option status (db_tool w)"

subsection \<open>A concrete state\<close>

text \<open>
  A tool row with the column defaults of \<open>app/models.py\<close> (ten tools, all in stock,
  threshold 2, unit weight 100.0; the default name, a non-ASCII string, is replaced), two
  registered connections, and requests of the three kinds.
\<close>

definition example_tool :: tool where
  "example_tool =
     \<lparr>tool_id = 1, name = ''tool'', total_quantity = 10, current_quantity = 10, threshold = 2,
      unit_weight = Fin 100, status = Normal, last_updated = Some 0\<rparr>"

definition example_world :: world where
  "example_world = \<lparr>db_tool = Some example_tool, borrow_records = [], active_connections = [0, 1]\<rparr>"

definition example_low_world :: world where
  "example_low_world =
     \<lparr>db_tool = Some (example_tool\<lparr>current_quantity := 1, status := Low\<rparr>), borrow_records = [],
      active_connections = [0, 1]\<rparr>"

definition example_env :: env where
  "example_env = \<lparr>now = (\<lambda>s. 0), history_fault = NoFault\<rparr>"

definition borrow_request :: "int \<Rightarrow> message" where
  "borrow_request q = \<lparr>action = Some ''borrow_tool'', quantity = Some q, current_weight = None\<rparr>"

definition return_request :: "int \<Rightarrow> message" where
  "return_request q = \<lparr>action = Some ''return_tool'', quantity = Some q, current_weight = None\<rparr>"

definition sensor_request :: "number \<Rightarrow> message" where
  "sensor_request cw = \<lparr>action = Some ''sensor_update'', quantity = None, current_weight = Some cw\<rparr>"

section \<open>Properties\<close>

subsection \<open>Auxiliary facts about the handlers\<close>

lemmas example_defs = example_tool_def example_world_def example_env_def borrow_request_def
  return_request_def sensor_request_def

lemma update_status_fields [simp]:
  "current_quantity (update_status t) = current_quantity t"
  "total_quantity (update_status t) = total_quantity t"
  "threshold (update_status t) = threshold t"
  "unit_weight (update_status t) = unit_weight t"
  by (simp_all add: update_status_def)

lemma update_status_spec:
  "0 \<le> current_quantity t \<Longrightarrow>
   status (update_status t) = spec_status (current_quantity t) (threshold t)"
  by (simp add: update_status_def spec_status_def)

lemma create_borrow_record_tool [simp]:
  "db_tool (fst (snd (create_borrow_record env w q))) = db_tool w"
  "active_connections (fst (snd (create_borrow_record env w q))) = active_connections w"
  by (simp_all add: create_borrow_record_def Let_def split: option.splits)

lemma create_return_record_tool [simp]:
  "db_tool (fst (snd (create_return_record env w q))) = db_tool w"
  "active_connections (fst (snd (create_return_record env w q))) = active_connections w"
  by (simp_all add: create_return_record_def Let_def split: option.splits)

lemma borrow_tool_db:
  "db_tool (fst (borrow_tool env w ws msg)) =
     (case db_tool w of
        None \<Rightarrow> None
      | Some t \<Rightarrow>
          if 0 < get_quantity msg \<and> get_quantity msg \<le> current_quantity t
          then Some ((update_status (t\<lparr>current_quantity := current_quantity t - get_quantity msg\<rparr>))
                       \<lparr>last_updated := Some (now env (WS 283))\<rparr>)
          else Some t)"
  by (simp add: borrow_tool_def Let_def split: option.splits)

lemma return_tool_db:
  "db_tool (fst (return_tool env w ws msg)) =
     (case db_tool w of
        None \<Rightarrow> None
      | Some t \<Rightarrow>
          if 0 < get_quantity msg \<and> current_quantity t + get_quantity msg \<le> total_quantity t
          then Some ((update_status (t\<lparr>current_quantity := current_quantity t + get_quantity msg\<rparr>))
                       \<lparr>last_updated := Some (now env (WS 400))\<rparr>)
          else Some t)"
  by (simp add: return_tool_def Let_def split: option.splits)

lemma sensor_update_db:
  "db_tool (fst (sensor_update env w ws msg)) =
     (case (current_weight msg, db_tool w) of
        (Some cw, Some t) \<Rightarrow>
          (case estimate cw t of
             Inl e \<Rightarrow> Some t
           | Inr n \<Rightarrow> Some ((update_status (clamp_quantity (heal t\<lparr>current_quantity := n\<rparr>)))
                              \<lparr>last_updated := Some (now env (WS 519))\<rparr>))
      | _ \<Rightarrow> db_tool w)"
  by (simp add: sensor_update_def estimate_def Let_def split: option.splits sum.splits)

lemma clamp_quantity_eq:
  "0 \<le> total_quantity t \<Longrightarrow>
   current_quantity (clamp_quantity t) = clamp (total_quantity t) (current_quantity t)"
  by (simp add: clamp_quantity_def clamp_def)

lemma clamp_quantity_fields [simp]:
  "total_quantity (clamp_quantity t) = total_quantity t"
  "threshold (clamp_quantity t) = threshold t"
  by (simp_all add: clamp_quantity_def)

lemma heal_fields [simp]:
  "total_quantity (heal t) = total_quantity t"
  "threshold (heal t) = threshold t"
  "current_quantity (heal t) = current_quantity t"
  by (simp_all add: heal_def)

lemma step_range:
  assumes "quantity_in_range w"
  shows "quantity_in_range (fst (process_websocket_message env w ws msg))"
proof -
  obtain t where t: "db_tool w = Some t" "0 \<le> current_quantity t" "current_quantity t \<le> total_quantity t"
    using assms by (auto simp: quantity_in_range_def split: option.splits)
  have b: "quantity_in_range (fst (borrow_tool env w ws msg))"
    using t by (simp add: quantity_in_range_def borrow_tool_db)
  have r: "quantity_in_range (fst (return_tool env w ws msg))"
    using t by (simp add: quantity_in_range_def return_tool_db)
  have s: "quantity_in_range (fst (sensor_update env w ws msg))"
    using t by (auto simp: quantity_in_range_def sensor_update_db clamp_quantity_eq clamp_def
                     split: option.splits sum.splits)
  have g: "fst (get_tool_status env w ws) = w"
    by (simp add: get_tool_status_def split: option.splits)
  show ?thesis
    using assms b r s g by (simp add: process_websocket_message_def Let_def)
qed

lemma step_consistent:
  assumes "status_consistent w"
  shows "status_consistent (fst (process_websocket_message env w ws msg))"
proof -
  obtain t where t: "db_tool w = Some t" "0 \<le> current_quantity t" "current_quantity t \<le> total_quantity t"
      "status t = spec_status (current_quantity t) (threshold t)"
    using assms by (auto simp: status_consistent_def split: option.splits)
  have b: "status_consistent (fst (borrow_tool env w ws msg))"
    using t by (simp add: status_consistent_def borrow_tool_db update_status_spec)
  have r: "status_consistent (fst (return_tool env w ws msg))"
    using t by (simp add: status_consistent_def return_tool_db update_status_spec)
  have s: "status_consistent (fst (sensor_update env w ws msg))"
    using t by (auto simp: status_consistent_def sensor_update_db clamp_quantity_eq clamp_def
                     update_status_spec split: option.splits sum.splits)
  have g: "fst (get_tool_status env w ws) = w"
    by (simp add: get_tool_status_def split: option.splits)
  show ?thesis
    using assms b r s g by (simp add: process_websocket_message_def Let_def)
qed


lemma truediv_1200: "truediv (NInt 1200) (Fin 100) = Inr (Fin 12)"
  by code_simp

lemma truediv_minus_50: "truediv (NInt (- 50)) (Fin 100) = Inr (Fin (- 1 / 2))"
  by code_simp


text \<open>What the accepting branches of the handlers do.\<close>

lemma notified_append [simp]: "notified (xs @ ys) = notified xs @ notified ys"
  by (induction xs rule: notified.induct) simp_all

lemma replies_append [simp]: "replies (xs @ ys) = replies xs @ replies ys"
  by (induction xs rule: replies.induct) simp_all

lemma create_borrow_record_quiet [simp]:
  "notified (snd (snd (create_borrow_record env w q))) = []"
  "replies (snd (snd (create_borrow_record env w q))) = []"
  by (simp_all add: create_borrow_record_def Let_def split: option.splits)

lemma create_return_record_quiet [simp]:
  "notified (snd (snd (create_return_record env w q))) = []"
  "replies (snd (snd (create_return_record env w q))) = []"
  by (simp_all add: create_return_record_def Let_def split: option.splits)

lemma create_borrow_record_result:
  "fst (create_borrow_record env w q) =
     (case history_commit env of Some es \<Rightarrow> Inl es | None \<Rightarrow> Inr ())"
  by (simp add: create_borrow_record_def Let_def split: option.splits)

lemma create_return_record_result:
  "fst (create_return_record env w q) =
     (case history_commit env of Some es \<Rightarrow> Inl es | None \<Rightarrow> Inr ())"
  by (simp add: create_return_record_def Let_def split: option.splits)

lemma borrow_tool_accepts:
  assumes "db_tool w = Some t" and "0 < get_quantity msg" and "get_quantity msg \<le> current_quantity t"
  shows "db_tool (fst (borrow_tool env w ws msg)) = Some (borrowed t (get_quantity msg) (now env (WS 283)))"
    and "replies (snd (borrow_tool env w ws msg)) =
           (if history_fault env = FlushFault
            then [(ws, error_reply ''borrow_tool'' (BorrowFailed PendingRollbackError) (now env (WS 331)))]
            else [(ws, borrow_response (get_quantity msg) (borrowed t (get_quantity msg) (now env (WS 283)))
                         (now env (WS 304)) (now env (WS 307)))])"
    and "notified (snd (borrow_tool env w ws msg)) =
           (if history_fault env = FlushFault then [] else [active_connections w])"
  using assms
  by (simp_all add: borrow_tool_def Let_def borrowed_def borrow_response_def
      send_personal_message_def broadcast_def inventory_changed_def create_borrow_record_result
      history_commit_def split: db_fault.splits)

lemma return_tool_accepts:
  assumes "db_tool w = Some t" and "0 < get_quantity msg"
    and "current_quantity t + get_quantity msg \<le> total_quantity t"
  shows "db_tool (fst (return_tool env w ws msg)) = Some (returned t (get_quantity msg) (now env (WS 400)))"
    and "replies (snd (return_tool env w ws msg)) =
           (if history_fault env = FlushFault
            then [(ws, error_reply ''return_tool'' (ReturnFailed PendingRollbackError) (now env (WS 448)))]
            else [(ws, return_response (get_quantity msg) (returned t (get_quantity msg) (now env (WS 400)))
                         (now env (WS 421)) (now env (WS 424)))])"
    and "notified (snd (return_tool env w ws msg)) =
           (if history_fault env = FlushFault then [] else [active_connections w])"
  using assms
  by (simp_all add: return_tool_def Let_def returned_def return_response_def
      send_personal_message_def broadcast_def inventory_changed_def create_return_record_result
      history_commit_def split: db_fault.splits)


lemma sensor_update_result:
  assumes "db_tool w = Some t" and "current_weight msg = Some cw"
  shows "sensor_update env w ws msg =
           (case estimate cw t of
              Inl e \<Rightarrow>
                (w, [Log Error (SensorUpdateError e),
                     Unicast ws (error_reply ''sensor_update'' (SensorFailed e) (now env (WS 562)))])
            | Inr n \<Rightarrow>
                (w\<lparr>db_tool := Some (sensed t n (now env (WS 519)))\<rparr>,
                 Log Info (SensorUpdated cw n (current_quantity t)
                            (current_quantity (sensed t n (now env (WS 519))))) #
                 Unicast ws (success ''sensor_update''
                               (SensorData cw n (current_quantity (sensed t n (now env (WS 519))))
                                  (status (sensed t n (now env (WS 519)))))
                               SensorOk (now env (WS 537))) #
                 (if current_quantity t \<noteq> current_quantity (sensed t n (now env (WS 519)))
                  then [Broadcast (active_connections w)
                          (inventory_changed (current_quantity t) (sensed t n (now env (WS 519)))
                             (now env (WS 551)))]
                  else [])))"
  using assms
  by (simp add: sensor_update_def estimate_def sensed_def Let_def send_personal_message_def
      broadcast_def split: sum.splits)

lemma sensed_fields:
  assumes "0 \<le> total_quantity t"
  shows "current_quantity (sensed t n ts) = clamp (total_quantity t) n"
    and "status (sensed t n ts) = spec_status (clamp (total_quantity t) n) (threshold t)"
    and "unit_weight (sensed t n ts) = unit_weight (heal t)"
  using assms
  by (simp_all add: sensed_def clamp_quantity_eq update_status_spec clamp_def clamp_quantity_def)

lemma trunc_examples:
  "trunc (7 / 2) = 3" "trunc 12 = 12" "trunc 10 = 10" "trunc (- (1 / 2)) = 0"
  by (simp_all add: trunc_def floor_eq_iff ceiling_eq_iff)

lemma floor_examples:
  "\<lfloor>7 / 2 :: rat\<rfloor> = 3" "\<lfloor>- (1 / 2) :: rat\<rfloor> = - 1"
  by (simp_all add: floor_eq_iff)


subsection \<open>The quantity stays within its bounds\<close>

text \<open>
  Claim C1. Start from a state whose tool row has \<open>0 \<le> current_quantity \<le> total_quantity\<close>
  and handle any list of borrow and return requests with positive quantities. Then the state
  after each request, accepted or rejected, again has its quantity within
  \<open>[0, total_quantity]\<close>.
\<close>

theorem quantity_stays_in_range:
  assumes "quantity_in_range w" and "list_all borrow_or_return reqs"
  shows "list_all quantity_in_range (states w reqs)"
  using assms
proof (induction reqs arbitrary: w)
  case Nil
  show ?case by simp
next
  case (Cons req reqs)
  obtain env ws msg where req: "req = (env, ws, msg)" by (cases req) auto
  let ?w' = "fst (process_websocket_message env w ws msg)"
  have "quantity_in_range ?w'" using Cons.prems(1) by (rule step_range)
  moreover have "list_all quantity_in_range (states ?w' reqs)"
    using Cons.IH [OF \<open>quantity_in_range ?w'\<close>] Cons.prems(2) by simp
  ultimately show ?case by (simp add: req Let_def)
qed

theorem quantity_stays_in_range_witness:
  "map stock (states example_world
      [(example_env, 0, borrow_request 3), (example_env, 1, return_request 2),
       (example_env, 0, borrow_request 20), (example_env, 1, return_request 5)]) =
     [Some 7, Some 9, Some 9, Some 9] \<and>
   list_all quantity_in_range (states example_world
      [(example_env, 0, borrow_request 3), (example_env, 1, return_request 2),
       (example_env, 0, borrow_request 20), (example_env, 1, return_request 5)])"
  using quantity_stays_in_range [of example_world
      "[(example_env, 0, borrow_request 3), (example_env, 1, return_request 2),
        (example_env, 0, borrow_request 20), (example_env, 1, return_request 5)]"]
  by (simp add: example_defs quantity_in_range_def borrow_or_return_def get_quantity_def Let_def
      stock_def process_websocket_message_def borrow_tool_db return_tool_db update_status_def)

subsection \<open>The status is a function of quantity and threshold\<close>

text \<open>
  Claim C2. Start from a state whose tool row has its quantity within bounds and its status
  equal to the specified function of quantity and threshold (Empty exactly at quantity 0, Low
  exactly when \<open>0 < quantity \<le> threshold\<close>, Normal otherwise). Then after every request of
  any kind (borrow, return, sensor update, accepted or rejected) the row again has both
  properties: each handler that commits recomputes the status with \<open>update_status\<close>, which
  reads the quantity and the threshold only.
\<close>

theorem status_never_drifts:
  assumes "status_consistent w"
  shows "list_all status_consistent (states w reqs)"
  using assms
proof (induction reqs arbitrary: w)
  case Nil
  show ?case by simp
next
  case (Cons req reqs)
  obtain env ws msg where req: "req = (env, ws, msg)" by (cases req) auto
  let ?w' = "fst (process_websocket_message env w ws msg)"
  have "status_consistent ?w'" using Cons.prems by (rule step_consistent)
  then show ?case using Cons.IH [of ?w'] by (simp add: req Let_def)
qed

theorem status_never_drifts_witness:
  "map tool_status (states example_world
      [(example_env, 0, borrow_request 9), (example_env, 1, borrow_request 1),
       (example_env, 0, return_request 5)]) = [Some Low, Some Empty, Some Normal] \<and>
   list_all status_consistent (states example_world
      [(example_env, 0, borrow_request 9), (example_env, 1, borrow_request 1),
       (example_env, 0, return_request 5)])"
  using status_never_drifts [of example_world
      "[(example_env, 0, borrow_request 9), (example_env, 1, borrow_request 1),
        (example_env, 0, return_request 5)]"]
  by (simp add: example_defs status_consistent_def spec_status_def get_quantity_def Let_def
      tool_status_def process_websocket_message_def borrow_tool_db return_tool_db update_status_def)

subsection \<open>Rejected requests\<close>

text \<open>
  Claim C3. A borrow request for more than the current quantity (of a row whose quantity is
  not negative) leaves the whole state as it was and has exactly one effect: a reply to the
  requesting connection with \<open>success: false\<close> and the insufficient-stock message, which
  carries the row's current quantity. So nothing is broadcast and the history function is not
  called.
\<close>

theorem borrow_insufficient_stock:
  assumes "db_tool w = Some t" and "0 \<le> current_quantity t" and "current_quantity t < get_quantity msg"
  shows "borrow_tool env w ws msg =
           (w, [Unicast ws (failure ''borrow_tool'' (InsufficientStock (current_quantity t)) (now env (WS 263)))])"
  using assms by (simp add: borrow_tool_def send_personal_message_def Let_def)

theorem borrow_insufficient_stock_witness:
  "borrow_tool example_env example_world 0 (borrow_request 11) =
     (example_world, [Unicast 0 (failure ''borrow_tool'' (InsufficientStock 10) 0)])"
  using borrow_insufficient_stock [of example_world example_tool "borrow_request 11" example_env 0]
  by (simp add: example_defs get_quantity_def)

text \<open>
  Claim C4. A return request that would lift the quantity above the total (of a row whose
  quantity does not exceed the total) leaves the whole state as it was and has exactly one
  effect: a reply to the requesting connection with \<open>success: false\<close> and the
  capacity message, which carries the current and the total quantity. So nothing is broadcast
  and the history function is not called.
\<close>

theorem return_would_exceed_capacity:
  assumes "db_tool w = Some t" and "current_quantity t \<le> total_quantity t"
    and "current_quantity t + get_quantity msg > total_quantity t"
  shows "return_tool env w ws msg =
           (w, [Unicast ws (failure ''return_tool''
                  (WouldExceedCapacity (current_quantity t) (total_quantity t)) (now env (WS 380)))])"
  using assms by (simp add: return_tool_def send_personal_message_def Let_def)

theorem return_would_exceed_capacity_witness:
  "return_tool example_env example_world 0 (return_request 1) =
     (example_world, [Unicast 0 (failure ''return_tool'' (WouldExceedCapacity 10 10) 0)])"
  using return_would_exceed_capacity [of example_world example_tool "return_request 1" example_env 0]
  by (simp add: example_defs get_quantity_def)

subsection \<open>The default quantity\<close>

text \<open>
  Claim C9. A borrow or return message without the \<open>quantity\<close> key is handled as the
  same message with quantity 1 and is not rejected for the missing key: when at least one tool
  is in stock the borrow commits the quantity less one, when there is room for one more the
  return commits the quantity plus one, and (unless the flush of the history row fails) the
  reply is the success reply for one unit.
\<close>

theorem omitted_quantity_is_one:
  assumes "quantity msg = None" and "db_tool w = Some t"
  shows "borrow_tool env w ws msg = borrow_tool env w ws (msg\<lparr>quantity := Some 1\<rparr>) \<and>
         return_tool env w ws msg = return_tool env w ws (msg\<lparr>quantity := Some 1\<rparr>) \<and>
         (1 \<le> current_quantity t \<longrightarrow>
            stock (fst (borrow_tool env w ws msg)) = Some (current_quantity t - 1) \<and>
            (history_fault env \<noteq> FlushFault \<longrightarrow>
               replies (snd (borrow_tool env w ws msg)) =
                 [(ws, borrow_response 1 (borrowed t 1 (now env (WS 283)))
                         (now env (WS 304)) (now env (WS 307)))])) \<and>
         (current_quantity t + 1 \<le> total_quantity t \<longrightarrow>
            stock (fst (return_tool env w ws msg)) = Some (current_quantity t + 1) \<and>
            (history_fault env \<noteq> FlushFault \<longrightarrow>
               replies (snd (return_tool env w ws msg)) =
                 [(ws, return_response 1 (returned t 1 (now env (WS 400)))
                         (now env (WS 421)) (now env (WS 424)))]))"
proof -
  have q: "get_quantity msg = 1"
    using assms(1) by (simp add: get_quantity_def)
  have same: "borrow_tool env w ws msg = borrow_tool env w ws (msg\<lparr>quantity := Some 1\<rparr>)"
      "return_tool env w ws msg = return_tool env w ws (msg\<lparr>quantity := Some 1\<rparr>)"
    using assms(1) by (simp_all add: borrow_tool_def return_tool_def get_quantity_def)
  have b: "stock (fst (borrow_tool env w ws msg)) = Some (current_quantity t - 1)"
      "history_fault env \<noteq> FlushFault \<Longrightarrow>
         replies (snd (borrow_tool env w ws msg)) =
           [(ws, borrow_response 1 (borrowed t 1 (now env (WS 283))) (now env (WS 304)) (now env (WS 307)))]"
    if "1 \<le> current_quantity t"
    using borrow_tool_accepts [of w t msg env ws] assms(2) that q
    by (simp_all add: stock_def borrowed_def)
  have r: "stock (fst (return_tool env w ws msg)) = Some (current_quantity t + 1)"
      "history_fault env \<noteq> FlushFault \<Longrightarrow>
         replies (snd (return_tool env w ws msg)) =
           [(ws, return_response 1 (returned t 1 (now env (WS 400))) (now env (WS 421)) (now env (WS 424)))]"
    if "current_quantity t + 1 \<le> total_quantity t"
    using return_tool_accepts [of w t msg env ws] assms(2) that q
    by (simp_all add: stock_def returned_def)
  show ?thesis
    using same b r by blast
qed

theorem omitted_quantity_is_one_witness:
  "stock (fst (borrow_tool example_env example_low_world 0
      \<lparr>action = Some ''borrow_tool'', quantity = None, current_weight = None\<rparr>)) = Some 0 \<and>
   replies (snd (borrow_tool example_env example_low_world 0
      \<lparr>action = Some ''borrow_tool'', quantity = None, current_weight = None\<rparr>)) =
     [(0, success ''borrow_tool'' (BorrowData 1 0 Empty 0) BorrowOk 0)] \<and>
   stock (fst (return_tool example_env example_low_world 0
      \<lparr>action = Some ''return_tool'', quantity = None, current_weight = None\<rparr>)) = Some 2 \<and>
   replies (snd (return_tool example_env example_low_world 0
      \<lparr>action = Some ''return_tool'', quantity = None, current_weight = None\<rparr>)) =
     [(0, success ''return_tool'' (ReturnData 1 2 Low 0) ReturnOk 0)]"
  using omitted_quantity_is_one
      [where msg = "\<lparr>action = Some ''borrow_tool'', quantity = None, current_weight = None\<rparr>"
        and w = example_low_world and t = "example_tool\<lparr>current_quantity := 1, status := Low\<rparr>"
        and env = example_env and ws = 0, THEN conjunct2, THEN conjunct2, THEN conjunct1]
    omitted_quantity_is_one
      [where msg = "\<lparr>action = Some ''return_tool'', quantity = None, current_weight = None\<rparr>"
        and w = example_low_world and t = "example_tool\<lparr>current_quantity := 1, status := Low\<rparr>"
        and env = example_env and ws = 0, THEN conjunct2, THEN conjunct2, THEN conjunct2]
  by (simp add: example_defs example_low_world_def borrowed_def returned_def borrow_response_def
      return_response_def update_status_def)

subsection \<open>Broadcasts\<close>

text \<open>
  The handlers send an \<open>inventory_changed\<close> broadcast, to the connections registered
  at that moment, exactly when a borrow or return sends its success reply, and exactly when a
  sensor update commits a quantity different from the one it read.
\<close>

lemma broadcast_iff_success_reply:
  "notified (snd (borrow_tool env w ws msg)) =
     (if succeeded (snd (borrow_tool env w ws msg)) then [active_connections w] else [])"
  "notified (snd (return_tool env w ws msg)) =
     (if succeeded (snd (return_tool env w ws msg)) then [active_connections w] else [])"
  "notified (snd (sensor_update env w ws msg)) =
     (if stock (fst (sensor_update env w ws msg)) \<noteq> stock w then [active_connections w] else [])"
    by (simp_all add: borrow_tool_def return_tool_def sensor_update_def Let_def
        send_personal_message_def broadcast_def succeeded_def stock_def
        failure_def success_def error_reply_def inventory_changed_def create_borrow_record_result
        create_return_record_result history_commit_def
        split: option.splits sum.splits db_fault.splits)

text \<open>
  Claim C6. An \<open>inventory_changed\<close> broadcast is sent exactly once for every borrow
  or return that changes the quantity. The borrow handler does not meet this when the flush of
  the history row fails: it has committed the new quantity (10 becomes 9 below), it catches
  and logs the exception of \<open>create_borrow_record\<close> in order to go on, but its next
  read of the tool row raises on the session the failed flush left behind, so that the
  requester gets an error reply and nothing is broadcast.
\<close>

theorem committed_borrow_without_broadcast:
  "stock example_world = Some 10 \<and>
   stock (fst (borrow_tool (example_env\<lparr>history_fault := FlushFault\<rparr>) example_world 0
             (borrow_request 1))) = Some 9 \<and>
   notified (snd (borrow_tool (example_env\<lparr>history_fault := FlushFault\<rparr>) example_world 0
             (borrow_request 1))) = [] \<and>
   replies (snd (borrow_tool (example_env\<lparr>history_fault := FlushFault\<rparr>) example_world 0
             (borrow_request 1))) =
     [(0, error_reply ''borrow_tool'' (BorrowFailed PendingRollbackError) 0)]"
  using borrow_tool_accepts [of example_world example_tool "borrow_request 1"
      "example_env\<lparr>history_fault := FlushFault\<rparr>" 0]
  by (simp add: example_defs stock_def get_quantity_def borrowed_def)

subsection \<open>The order of reply, broadcast and history call\<close>




subsection \<open>Sensor updates\<close>




text \<open>
  The estimate in the reply is not the floor of the quotient: at weight -50 the floor is -1,
  outside \<open>[0, 10]\<close>, and both the estimated and the committed quantity are 0.
\<close>

theorem estimate_not_floor:
  "\<lfloor>(- 50 :: rat) / 100\<rfloor> = - 1 \<and>
   truediv (NInt (- 50)) (Fin 100) = Inr (Fin ((- 50) / 100)) \<and>
   replies (snd (sensor_update example_env example_world 0 (sensor_request (NInt (- 50))))) =
     [(0, success ''sensor_update'' (SensorData (NInt (- 50)) 0 0 Empty) SensorOk 0)]"
  using sensor_update_result [of example_world example_tool "sensor_request (NInt (- 50))"
      "NInt (- 50)" example_env 0] truediv_minus_50
  by (simp add: example_defs estimate_def heal_def trunc_examples floor_examples sensed_def
      clamp_quantity_def update_status_def)

text \<open>
  Claim C10, as the handler has it. In the success reply of a sensor update (total not
  negative, quotient a finite float \<open>r\<close>) the field \<open>estimated_quantity\<close> is
  \<open>int(r)\<close>, the quotient rounded toward zero and not clamped, and
  \<open>current_quantity\<close> is that value clamped into \<open>[0, total_quantity]\<close>, which is
  also the committed quantity. The two fields differ exactly when \<open>int(r)\<close> is negative
  or exceeds the total.
\<close>

theorem sensor_reply_fields:
  assumes "db_tool w = Some t" and "current_weight msg = Some cw" and "0 \<le> total_quantity t"
    and "truediv cw (unit_weight (heal t)) = Inr (Fin r)"
  shows "replies (snd (sensor_update env w ws msg)) =
           [(ws, success ''sensor_update''
                   (SensorData cw (trunc r) (clamp (total_quantity t) (trunc r))
                      (spec_status (clamp (total_quantity t) (trunc r)) (threshold t)))
                   SensorOk (now env (WS 537)))] \<and>
         stock (fst (sensor_update env w ws msg)) = Some (clamp (total_quantity t) (trunc r)) \<and>
         (trunc r \<noteq> clamp (total_quantity t) (trunc r) \<longleftrightarrow>
            trunc r < 0 \<or> total_quantity t < trunc r)"
proof -
  have "trunc r \<noteq> clamp (total_quantity t) (trunc r) \<longleftrightarrow> trunc r < 0 \<or> total_quantity t < trunc r"
    using assms(3) by (auto simp: clamp_def)
  then show ?thesis
    using sensor_update_result [OF assms(1,2), of env ws] sensed_fields(1,2) [OF assms(3)] assms(4)
    by (simp add: estimate_def stock_def)
qed

theorem sensor_reply_fields_witness:
  "replies (snd (sensor_update example_env example_world 0 (sensor_request (NInt 1200)))) =
     [(0, success ''sensor_update'' (SensorData (NInt 1200) 12 10 Normal) SensorOk 0)] \<and>
   stock (fst (sensor_update example_env example_world 0 (sensor_request (NInt 1200)))) = Some 10"
  using sensor_reply_fields [of example_world example_tool "sensor_request (NInt 1200)"
      "NInt 1200" 12 example_env 0] truediv_1200
  by (simp add: example_defs heal_def trunc_examples clamp_def spec_status_def)

end
